theory Spec2Isabelle
  imports Complex_Main
begin

section \<open>Values of the scripts\<close>

text \<open>
  The two scripts \<^verbatim>\<open>bootstrap_mhd_rbc.py\<close> and \<^verbatim>\<open>forces_mhd_rayleigh_benard.py\<close>
  drive an external spectral solver. The model below embeds what the scripts themselves
  compute: the bootstrap controller of the main loop, the exception handlers around it
  and the reading of the command line.

  Python floats are idealised as real numbers (rounding, overflow and underflow are not
  modelled). The one float whose non-finite values steer the control flow, the tracked
  average Reynolds number, keeps them: it is a value of type \<open>fl\<close>.
\<close>

datatype fl = Finite real | PosInf | NegInf | NaN

text \<open>\<^verbatim>\<open>np.isfinite(x)\<close>\<close>

fun isfinite :: "fl \<Rightarrow> bool" where
  "isfinite (Finite x) = True"
| "isfinite PosInf = False"
| "isfinite NegInf = False"
| "isfinite NaN = False"

text \<open>\<^verbatim>\<open>x < 1\<close> on a float: a comparison with NaN is false.\<close>

fun fl_lt_1 :: "fl \<Rightarrow> bool" where
  "fl_lt_1 (Finite x) = (x < 1)"
| "fl_lt_1 PosInf = False"
| "fl_lt_1 NegInf = True"
| "fl_lt_1 NaN = False"

text \<open>\<^verbatim>\<open>np.sqrt(x)\<close> on a real argument: NaN below zero.\<close>

definition np_sqrt :: "real \<Rightarrow> fl" where
  "np_sqrt x = (if x < 0 then NaN else Finite (sqrt x))"

text \<open>The exceptions that the modelled statements can raise; \<open>External\<close> stands for
  whatever a call into the solver framework raises.\<close>

datatype exn = TypeError | ValueError | ZeroDivisionError | IndexError | KeyError
  | AttributeError | External string

section \<open>The bootstrap controller of \<^verbatim>\<open>bootstrap_mhd_rbc.py\<close>\<close>

text \<open>The values fixed before the main loop (lines 98, 128, 465-470, 478).\<close>

record config =
  threeD :: bool
  Pr :: real
  bootstrap_\<alpha> :: real
  bootstrap_\<beta> :: real
  bootstrap_logStep :: real
  max_bootstrap_steps :: int
  start_iter :: int

text \<open>
  The variables that the main loop reads and writes. \<open>solver_state\<close> is the grid data of
  \<^verbatim>\<open>solver.state\<close> by field name (\<^verbatim>\<open>'u'\<close>, \<^verbatim>\<open>'w'\<close>, and in 3D \<^verbatim>\<open>'v'\<close>, among others);
  \<open>Ra_fd\<close> and \<open>Q_fd\<close> are the grid data of the two parameter fields; \<open>CFL_max_dt\<close> and
  \<open>CFL_velocities\<close> are the attributes of the CFL object that the script sets;
  \<open>solver_ok\<close> is \<^verbatim>\<open>solver.ok\<close> as the next check of the loop condition reads it.
\<close>

record state =
  solver_ok :: bool
  iteration :: int
  sim_time :: real
  solver_state :: "string \<rightharpoonup> real list"
  dt :: real
  Ra_fd :: "real list"
  Q_fd :: "real list"
  cRa :: real
  cQ :: real
  t_buoy :: fl
  max_dt :: real
  CFL_max_dt :: real
  CFL_velocities :: "string list list"
  bootstrap_force_balances :: "real list list"
  rolled :: "real list list"
  bootstrap_i :: int
  last_bootstrap_time :: real
  bootstrap_now :: bool
  bootstrap_wait_time :: real
  bootstrap_steps :: int
  Re_avg :: fl

text \<open>
  What the framework hands back in one pass of the loop: the time step of
  \<^verbatim>\<open>CFL.compute_dt()\<close>, whether \<^verbatim>\<open>solver.step(dt)\<close> raises, the simulation time, the
  fields and \<^verbatim>\<open>solver.ok\<close> after the step, and the value \<^verbatim>\<open>flow.grid_average('Re')\<close>
  has after the step.
\<close>

record obs =
  cfl_dt :: real
  step_exn :: "exn option"
  time_after :: real
  state_after :: "string \<rightharpoonup> real list"
  ok_after :: bool
  Re_sample :: fl

datatype body_result = Continue state | Broke state | Threw exn state

text \<open>Lines 544-552: the new pair \<open>(nRa, nQ)\<close>. The test of \<open>\<beta>\<close> comes first.\<close>

definition new_params :: "config \<Rightarrow> real \<Rightarrow> real \<Rightarrow> real \<times> real" where
  "new_params cfg ra q =
     (if bootstrap_\<beta> cfg = 0 then (ra * 10 powr bootstrap_logStep cfg, q)
      else if bootstrap_\<alpha> cfg = 0 then (ra, q * 10 powr bootstrap_logStep cfg)
      else (ra * 10 powr bootstrap_logStep cfg,
            q / (10 powr bootstrap_logStep cfg) powr (bootstrap_\<alpha> cfg / bootstrap_\<beta> cfg)))"

text \<open>\<^verbatim>\<open>field['g'] *= k\<close>\<close>

definition scale_grid :: "real \<Rightarrow> real list \<Rightarrow> real list" where
  "scale_grid k g = map (\<lambda>x. x * k) g"

text \<open>\<^verbatim>\<open>f = solver.state[n]; f['g'] *= k\<close>. The script reads \<^verbatim>\<open>'u'\<close> and \<^verbatim>\<open>'w'\<close> only,
  which line 151 always declares.\<close>

definition scale_field :: "string \<Rightarrow> real \<Rightarrow> (string \<rightharpoonup> real list) \<Rightarrow> (string \<rightharpoonup> real list)" where
  "scale_field n k fs = (case fs n of None \<Rightarrow> fs | Some g \<Rightarrow> fs(n \<mapsto> scale_grid k g))"

text \<open>The tuple handed to \<^verbatim>\<open>CFL.add_velocities\<close> (lines 424-427 and 567-570): the
  velocity components of the run.\<close>

definition velocity_names :: "config \<Rightarrow> string list" where
  "velocity_names cfg = (if threeD cfg then [''u'', ''v'', ''w''] else [''u'', ''w''])"

text \<open>
  Lines 542-580: one bootstrap step, statement by statement. Python's float division
  raises ZeroDivisionError on a zero divisor; the state at the raise is the state the
  statements before it have built.
\<close>

definition apply_step :: "config \<Rightarrow> state \<Rightarrow> body_result" where
  "apply_step cfg s0 =
     (let s1 = s0\<lparr>bootstrap_now := False, bootstrap_steps := bootstrap_steps s0 + 1\<rparr>;
          nRa = fst (new_params cfg (cRa s1) (cQ s1));
          nQ = snd (new_params cfg (cRa s1) (cQ s1))
      in if cRa s1 = 0 then Threw ZeroDivisionError s1
      else let s2 = s1\<lparr>Ra_fd := scale_grid (nRa / cRa s1) (Ra_fd s1)\<rparr>
      in if cQ s2 = 0 then Threw ZeroDivisionError s2
      else let s3 = s2\<lparr>Q_fd := scale_grid (nQ / cQ s2) (Q_fd s2)\<rparr>;
               u_factor = sqrt (nRa / cRa s3);
               s4 = s3\<lparr>solver_state := scale_field ''w'' u_factor (scale_field ''u'' u_factor (solver_state s3))\<rparr>
      in if nRa = 0 then Threw ZeroDivisionError s4
      else let s5 = s4\<lparr>bootstrap_wait_time := bootstrap_wait_time s4 * (cRa s4 / nRa),
                       max_dt := max_dt s4 * (cRa s4 / nRa)\<rparr>;
               s6 = s5\<lparr>CFL_max_dt := max_dt s5,
                       CFL_velocities := CFL_velocities s5 @ [velocity_names cfg]\<rparr>;
               s7 = s6\<lparr>cQ := nQ, cRa := nRa\<rparr>
      in if cRa s7 = 0 then Threw ZeroDivisionError s7
      else Continue (s7\<lparr>t_buoy := np_sqrt (Pr cfg / cRa s7),
                        bootstrap_force_balances := map (scale_grid 0) (bootstrap_force_balances s7),
                        rolled := map (scale_grid 0) (rolled s7),
                        bootstrap_i := 0,
                        last_bootstrap_time := sim_time s7\<rparr>))"

text \<open>Lines 484-485: \<^verbatim>\<open>dt = CFL.compute_dt(); solver.step(dt)\<close>, the step having returned.\<close>

definition solver_step :: "obs \<Rightarrow> state \<Rightarrow> state" where
  "solver_step ob s = s\<lparr>dt := cfl_dt ob, iteration := iteration s + 1, sim_time := time_after ob,
     solver_state := state_after ob, solver_ok := ok_after ob\<rparr>"

text \<open>Lines 489 and 496-497: \<open>Re_avg\<close> is read anew every tenth pass.\<close>

definition sample_Re :: "config \<Rightarrow> obs \<Rightarrow> state \<Rightarrow> state" where
  "sample_Re cfg ob s =
     (if (iteration s - start_iter cfg) mod 10 = 0 then s\<lparr>Re_avg := Re_sample ob\<rparr> else s)"

text \<open>Lines 531-534.\<close>

definition check_trigger :: "state \<Rightarrow> state" where
  "check_trigger s =
     (if fl_lt_1 (Re_avg s) then s\<lparr>last_bootstrap_time := sim_time s\<rparr>
      else if sim_time s - last_bootstrap_time s > bootstrap_wait_time s
        then s\<lparr>bootstrap_now := True\<rparr>
      else s)"

text \<open>Lines 537-580.\<close>

definition bootstrap_block :: "config \<Rightarrow> state \<Rightarrow> body_result" where
  "bootstrap_block cfg s =
     (if bootstrap_now s
      then (if bootstrap_steps s = max_bootstrap_steps cfg then Broke s else apply_step cfg s)
      else Continue s)"

text \<open>Lines 484-534, the step having returned. In 3D every hundredth pass asks each
  field for its grid layout (lines 490-493), which leaves the grid values as they are.\<close>

definition upto_trigger :: "config \<Rightarrow> obs \<Rightarrow> state \<Rightarrow> state" where
  "upto_trigger cfg ob s = check_trigger (sample_Re cfg ob (solver_step ob s))"

text \<open>One pass of the loop body, lines 484-580.\<close>

definition body :: "config \<Rightarrow> obs \<Rightarrow> state \<Rightarrow> body_result" where
  "body cfg ob s =
     (case step_exn ob of
        Some e \<Rightarrow> Threw e (s\<lparr>dt := cfl_dt ob\<rparr>)
      | None \<Rightarrow> bootstrap_block cfg (upto_trigger cfg ob s))"

text \<open>
  The while loop of line 481, run against the list of what the framework hands back pass
  by pass. \<open>Running\<close> says that the list is used up with the loop condition still true:
  the loop would go on.
\<close>

datatype loop_exit = CondFalse | Break | Raised exn | Running

fun run :: "config \<Rightarrow> obs list \<Rightarrow> state \<Rightarrow> loop_exit \<times> state" where
  "run cfg [] s = (if solver_ok s \<and> isfinite (Re_avg s) then Running else CondFalse, s)"
| "run cfg (ob # obs) s =
     (if solver_ok s \<and> isfinite (Re_avg s)
      then (case body cfg ob s of
              Continue s' \<Rightarrow> run cfg obs s'
            | Broke s' \<Rightarrow> (Break, s')
            | Threw e s' \<Rightarrow> (Raised e, s'))
      else (CondFalse, s))"

text \<open>The loop variables as line 456-479 set them, given the solver as the setup left it.\<close>

definition init_state ::
  "real \<Rightarrow> real \<Rightarrow> real \<Rightarrow> real \<Rightarrow> real \<Rightarrow> real list \<Rightarrow> real list \<Rightarrow> bool \<Rightarrow> int \<Rightarrow> real
    \<Rightarrow> (string \<rightharpoonup> real list) \<Rightarrow> string list list \<Rightarrow> nat \<Rightarrow> state" where
  "init_state Ra Q tb mdt dt0 Ra_g Q_g ok it tm fs vels maxN =
     \<lparr>solver_ok = ok, iteration = it, sim_time = tm, solver_state = fs, dt = dt0,
      Ra_fd = Ra_g, Q_fd = Q_g, cRa = Ra, cQ = Q, t_buoy = Finite tb, max_dt = mdt,
      CFL_max_dt = mdt, CFL_velocities = vels,
      bootstrap_force_balances = replicate maxN (replicate 4 0),
      rolled = replicate maxN (replicate 4 0),
      bootstrap_i = 0, last_bootstrap_time = 0, bootstrap_now = False,
      bootstrap_wait_time = 20 * tb, bootstrap_steps = 0, Re_avg = Finite 0\<rparr>"

section \<open>The main loop of \<^verbatim>\<open>forces_mhd_rayleigh_benard.py\<close>\<close>

text \<open>Lines 429-466: the same loop without the bootstrap controller.\<close>

record fstate =
  f_ok :: bool
  f_iteration :: int
  f_dt :: real
  f_Re_avg :: fl

definition forces_body :: "int \<Rightarrow> obs \<Rightarrow> fstate \<Rightarrow> exn + fstate" where
  "forces_body start ob s =
     (case step_exn ob of
        Some e \<Rightarrow> Inl e
      | None \<Rightarrow>
          (let s1 = s\<lparr>f_dt := cfl_dt ob, f_iteration := f_iteration s + 1, f_ok := ok_after ob\<rparr>
           in Inr (if (f_iteration s1 - start) mod 10 = 0 then s1\<lparr>f_Re_avg := Re_sample ob\<rparr> else s1)))"

fun forces_run :: "int \<Rightarrow> obs list \<Rightarrow> fstate \<Rightarrow> loop_exit \<times> fstate" where
  "forces_run start [] s = (if f_ok s \<and> isfinite (f_Re_avg s) then Running else CondFalse, s)"
| "forces_run start (ob # obs) s =
     (if f_ok s \<and> isfinite (f_Re_avg s)
      then (case forces_body start ob s of
              Inr s' \<Rightarrow> forces_run start obs s'
            | Inl e \<Rightarrow> (Raised e, s\<lparr>f_dt := cfl_dt ob\<rparr>))
      else (CondFalse, s))"

section \<open>Exception handlers and the end of a run\<close>

text \<open>
  Both scripts wrap the loop in the same \<^verbatim>\<open>try\<close>/\<^verbatim>\<open>except\<close>/\<^verbatim>\<open>finally\<close>. What a run
  writes is recorded as a list of events; the numbers that the log lines format are left
  out of the events. Reading the clock and formatting the log lines are taken to return.
\<close>

datatype event = Info string | Error string | Printed string

text \<open>The statements that occur in the two handler bodies. A bare \<^verbatim>\<open>raise\<close> leaves the
  handler at once with the exception being handled.\<close>

datatype stmt = Raise | Logger_error string | Print string

fun exec_handler :: "stmt list \<Rightarrow> event list \<times> bool" where
  "exec_handler [] = ([], False)"
| "exec_handler (Raise # rest) = ([], True)"
| "exec_handler (Logger_error m # rest) = (Error m # fst (exec_handler rest), snd (exec_handler rest))"
| "exec_handler (Print m # rest) = (Printed m # fst (exec_handler rest), snd (exec_handler rest))"

text \<open>Lines 582-584 (467-469 in the forces script).\<close>

definition main_except :: "stmt list" where
  "main_except = [Raise, Logger_error ''Exception raised, triggering end of main loop.'']"

text \<open>Lines 599-601 (484-486).\<close>

definition final_except :: "stmt list" where
  "final_except = [Raise, Print ''cannot save final checkpoint'']"

text \<open>An exception caught by a handler stays pending when the handler re-raises it and is
  dropped when the handler runs to its end.\<close>

definition handle :: "stmt list \<Rightarrow> exn option \<Rightarrow> event list \<times> exn option" where
  "handle h pending =
     (case pending of
        None \<Rightarrow> ([], None)
      | Some e \<Rightarrow> (fst (exec_handler h), if snd (exec_handler h) then Some e else None))"

text \<open>What the framework does at the end of a run: whether building the final checkpoint
  (lines 595-596), the extra \<^verbatim>\<open>solver.step(dt)\<close> (line 597), merging the checkpoint
  files (line 598) or joining the analysis files (lines 605-609) raises, and the flag
  \<^verbatim>\<open>--no_join\<close>.\<close>

record fin_env =
  checkpoint_exn :: "exn option"
  final_step_exn :: "exn option"
  merge_exn :: "exn option"
  join_exn :: "exn option"
  no_join :: bool

text \<open>Lines 595-598: the inner \<^verbatim>\<open>try\<close>, returning \<^verbatim>\<open>solver.iteration\<close> and the exception
  raised, if any. A step that returns advances \<^verbatim>\<open>solver.iteration\<close> by one.\<close>

definition final_try :: "fin_env \<Rightarrow> int \<Rightarrow> int \<times> exn option" where
  "final_try env it =
     (case checkpoint_exn env of
        Some e \<Rightarrow> (it, Some e)
      | None \<Rightarrow>
         (case final_step_exn env of
            Some e \<Rightarrow> (it, Some e)
          | None \<Rightarrow> (it + 1, merge_exn env)))"

text \<open>Lines 602-616: the inner \<^verbatim>\<open>finally\<close>.\<close>

definition final_finally :: "fin_env \<Rightarrow> event list \<times> exn option" where
  "final_finally env =
     (if no_join env then (map Info [''========'', ''Iterations'', ''Sim end time'', ''Run time sec'',
          ''Run time cpu-hr'', ''iter/sec''], None)
      else (case join_exn env of
              Some e \<Rightarrow> ([Info ''beginning join operation''], Some e)
            | None \<Rightarrow> (map Info [''beginning join operation'', ''========'', ''Iterations'',
                ''Sim end time'', ''Run time sec'', ''Run time cpu-hr'', ''iter/sec''], None)))"

text \<open>Lines 585-616: the outer \<^verbatim>\<open>finally\<close>. An exception raised in a \<^verbatim>\<open>finally\<close> block
  takes the place of the pending one.\<close>

definition finally_block :: "fin_env \<Rightarrow> int \<Rightarrow> event list \<times> int \<times> exn option" where
  "finally_block env it =
     (let ev0 = map Info [''Iterations'', ''Sim end time'', ''Run time sec'', ''Run time cpu-hr'',
            ''iter/sec''];
          r = final_try env it;
          h = handle final_except (snd r);
          f = final_finally env
      in (ev0 @ fst h @ fst f, fst r, (case snd f of Some e \<Rightarrow> Some e | None \<Rightarrow> snd h)))"

text \<open>Lines 473-616: what follows the loop, given how the loop ended and the value of
  \<^verbatim>\<open>solver.iteration\<close> then. The result is the events written, \<^verbatim>\<open>solver.iteration\<close> at
  the end and the exception that leaves the script, if any.\<close>

definition after_loop :: "fin_env \<Rightarrow> loop_exit \<Rightarrow> int \<Rightarrow> event list \<times> int \<times> exn option" where
  "after_loop env ex it =
     (let h = handle main_except (case ex of Raised e \<Rightarrow> Some e | _ \<Rightarrow> None);
          f = finally_block env it
      in (fst h @ fst f, fst (snd f), (case snd (snd f) of Some e \<Rightarrow> Some e | None \<Rightarrow> snd h)))"

definition bootstrap_main ::
  "config \<Rightarrow> fin_env \<Rightarrow> obs list \<Rightarrow> state \<Rightarrow> event list \<times> int \<times> exn option" where
  "bootstrap_main cfg env obs s =
     after_loop env (fst (run cfg obs s)) (iteration (snd (run cfg obs s)))"

definition forces_main ::
  "int \<Rightarrow> fin_env \<Rightarrow> obs list \<Rightarrow> fstate \<Rightarrow> event list \<times> int \<times> exn option" where
  "forces_main start env obs s =
     after_loop env (fst (forces_run start obs s)) (f_iteration (snd (forces_run start obs s)))"

section \<open>Reading the command line in \<^verbatim>\<open>bootstrap_mhd_rbc.py\<close>\<close>


















section \<open>Reading off the result of a pass\<close>

fun result_state :: "body_result \<Rightarrow> state" where
  "result_state (Continue s) = s"
| "result_state (Broke s) = s"
| "result_state (Threw e s) = s"

fun continues :: "body_result \<Rightarrow> bool" where
  "continues (Continue s) = True"
| "continues (Broke s) = False"
| "continues (Threw e s) = False"

fun broke :: "body_result \<Rightarrow> bool" where
  "broke (Continue s) = False"
| "broke (Broke s) = True"
| "broke (Threw e s) = False"

section \<open>Example inputs\<close>

text \<open>A 2.5D run that walks up in Ra alone, by two decades a step, part of the way
  through: twenty passes in, with the flow above the threshold.\<close>

definition ex_cfg :: config where
  "ex_cfg = \<lparr>threeD = False, Pr = 1, bootstrap_\<alpha> = 1, bootstrap_\<beta> = 0, bootstrap_logStep = 2,
     max_bootstrap_steps = 12, start_iter = 0\<rparr>"

definition ex_state :: state where
  "ex_state = (init_state 100 1 (1/10) (1/20) (1/20) [100] [1] True 0 0
       [''u'' \<mapsto> [1, 2], ''w'' \<mapsto> [3]] [[''u'', ''w'']] 2)
     \<lparr>iteration := 19, sim_time := 3, last_bootstrap_time := 1/2, Re_avg := Finite 5\<rparr>"

definition ex_ob :: obs where
  "ex_ob = \<lparr>cfl_dt = 1/20, step_exn = None, time_after = 61/20,
     state_after = [''u'' \<mapsto> [1, 2], ''w'' \<mapsto> [3]], ok_after = True, Re_sample = Finite 6\<rparr>"

text \<open>The pass after \<open>ex_ob\<close>.\<close>

definition ex_ob2 :: obs where
  "ex_ob2 = \<lparr>cfl_dt = 1/2000, step_exn = None, time_after = 31/10,
     state_after = [''u'' \<mapsto> [10, 20], ''w'' \<mapsto> [30]], ok_after = True, Re_sample = Finite 7\<rparr>"

text \<open>The same run with both path exponents zero, with both exponents one and a step of
  one decade, in 3D, and with a negative maximum number of steps.\<close>

definition ex00_cfg :: config where
  "ex00_cfg = ex_cfg\<lparr>bootstrap_\<alpha> := 0\<rparr>"

definition ex11_cfg :: config where
  "ex11_cfg = ex_cfg\<lparr>bootstrap_\<beta> := 1, bootstrap_logStep := 1\<rparr>"

definition ex3d_cfg :: config where
  "ex3d_cfg = ex_cfg\<lparr>threeD := True\<rparr>"

definition ex3d_ob :: obs where
  "ex3d_ob = ex_ob\<lparr>state_after := [''u'' \<mapsto> [1, 2], ''v'' \<mapsto> [4], ''w'' \<mapsto> [3]]\<rparr>"

definition exneg_cfg :: config where
  "exneg_cfg = ex_cfg\<lparr>max_bootstrap_steps := - 1\<rparr>"

lemmas ex_defs = ex_cfg_def ex_state_def ex_ob_def ex_ob2_def ex00_cfg_def ex11_cfg_def
  ex3d_cfg_def ex3d_ob_def exneg_cfg_def

text \<open>The run of \<open>ex_cfg\<close> with room for one step only.\<close>

definition ex1_cfg :: config where
  "ex1_cfg = ex_cfg\<lparr>max_bootstrap_steps := 1\<rparr>"







text \<open>The run of \<open>ex_cfg\<close> from its first pass: nine passes at rest, and a tenth in which
  the Reynolds number read is NaN. \<open>ex_env\<close> is an end of run in which no call into the
  framework raises; \<open>ex_finit\<close> is the start of the loop of the forces script.\<close>

definition ex_init :: state where
  "ex_init = init_state 100 1 (1/10) (1/20) (1/20) [100] [1] True 0 0
       [''u'' \<mapsto> [1, 2], ''w'' \<mapsto> [3]] [[''u'', ''w'']] 2"

definition ex_pass :: "real \<Rightarrow> fl \<Rightarrow> obs" where
  "ex_pass t re = \<lparr>cfl_dt = 1/20, step_exn = None, time_after = t,
     state_after = [''u'' \<mapsto> [1, 2], ''w'' \<mapsto> [3]], ok_after = True, Re_sample = re\<rparr>"

definition ex_blowup :: "obs list" where
  "ex_blowup = [ex_pass (1/20) (Finite 0), ex_pass (2/20) (Finite 0), ex_pass (3/20) (Finite 0),
     ex_pass (4/20) (Finite 0), ex_pass (5/20) (Finite 0), ex_pass (6/20) (Finite 0),
     ex_pass (7/20) (Finite 0), ex_pass (8/20) (Finite 0), ex_pass (9/20) (Finite 0),
     ex_pass (10/20) NaN]"

definition ex_env :: fin_env where
  "ex_env = \<lparr>checkpoint_exn = None, final_step_exn = None, merge_exn = None, join_exn = None,
     no_join = False\<rparr>"

definition ex_finit :: fstate where
  "ex_finit = \<lparr>f_ok = True, f_iteration = 0, f_dt = 1/4, f_Re_avg = Finite 0\<rparr>"

text \<open>A first pass in which \<^verbatim>\<open>solver.step\<close> raises, and an end of run in which building
  the final checkpoint raises.\<close>

definition ex_raise :: obs where
  "ex_raise = (ex_pass (1/20) (Finite 0))\<lparr>step_exn := Some (External ''step failed'')\<rparr>"

definition ex_ck_env :: fin_env where
  "ex_ck_env = ex_env\<lparr>checkpoint_exn := Some (External ''checkpoint failed'')\<rparr>"

text \<open>The exception a computation ends with, if any.\<close>

fun raised :: "exn + 'a \<Rightarrow> exn option" where
  "raised (Inl e) = Some e"
| "raised (Inr x) = None"





section \<open>Properties of one bootstrap step\<close>

lemmas loop_defs = body_def bootstrap_block_def upto_trigger_def check_trigger_def sample_Re_def
  solver_step_def apply_step_def new_params_def scale_grid_def scale_field_def velocity_names_def
  np_sqrt_def Let_def init_state_def

lemma new_params_fst_nz: "ra \<noteq> 0 \<Longrightarrow> fst (new_params cfg ra q) \<noteq> 0"
  by (simp add: new_params_def)

text \<open>With nonzero Ra and Q no division fails, and the step ends in this state.\<close>

lemma apply_step_ok:
  assumes "cRa s \<noteq> 0" and "cQ s \<noteq> 0"
  shows "apply_step cfg s = Continue (s\<lparr>
      bootstrap_now := False,
      bootstrap_steps := bootstrap_steps s + 1,
      Ra_fd := scale_grid (fst (new_params cfg (cRa s) (cQ s)) / cRa s) (Ra_fd s),
      Q_fd := scale_grid (snd (new_params cfg (cRa s) (cQ s)) / cQ s) (Q_fd s),
      solver_state := scale_field ''w'' (sqrt (fst (new_params cfg (cRa s) (cQ s)) / cRa s))
         (scale_field ''u'' (sqrt (fst (new_params cfg (cRa s) (cQ s)) / cRa s)) (solver_state s)),
      bootstrap_wait_time := bootstrap_wait_time s * (cRa s / fst (new_params cfg (cRa s) (cQ s))),
      max_dt := max_dt s * (cRa s / fst (new_params cfg (cRa s) (cQ s))),
      CFL_max_dt := max_dt s * (cRa s / fst (new_params cfg (cRa s) (cQ s))),
      CFL_velocities := CFL_velocities s @ [velocity_names cfg],
      cQ := snd (new_params cfg (cRa s) (cQ s)),
      cRa := fst (new_params cfg (cRa s) (cQ s)),
      t_buoy := np_sqrt (Pr cfg / fst (new_params cfg (cRa s) (cQ s))),
      bootstrap_force_balances := map (scale_grid 0) (bootstrap_force_balances s),
      rolled := map (scale_grid 0) (rolled s),
      bootstrap_i := 0,
      last_bootstrap_time := sim_time s\<rparr>)"
  using assms new_params_fst_nz[of "cRa s" cfg "cQ s"]
  by (simp add: apply_step_def Let_def)

lemma apply_step_Continue_nz:
  assumes "apply_step cfg s = Continue s'"
  shows "cRa s \<noteq> 0 \<and> cQ s \<noteq> 0"
  using assms by (auto simp add: apply_step_def Let_def split: if_splits)

lemma apply_step_not_Broke: "apply_step cfg s \<noteq> Broke s'"
  by (simp add: apply_step_def Let_def)

lemma apply_step_Threw:
  assumes "apply_step cfg s = Threw e s'"
  shows "cRa s = 0 \<or> cQ s = 0"
  using assms apply_step_ok[of s cfg] by auto

text \<open>What the statements before the bootstrap block leave alone, and what they set.\<close>

lemma upto_trigger_keeps:
  "cRa (upto_trigger cfg ob s) = cRa s"
  "cQ (upto_trigger cfg ob s) = cQ s"
  "bootstrap_steps (upto_trigger cfg ob s) = bootstrap_steps s"
  "bootstrap_wait_time (upto_trigger cfg ob s) = bootstrap_wait_time s"
  "max_dt (upto_trigger cfg ob s) = max_dt s"
  "CFL_max_dt (upto_trigger cfg ob s) = CFL_max_dt s"
  "Ra_fd (upto_trigger cfg ob s) = Ra_fd s"
  "Q_fd (upto_trigger cfg ob s) = Q_fd s"
  "bootstrap_force_balances (upto_trigger cfg ob s) = bootstrap_force_balances s"
  "rolled (upto_trigger cfg ob s) = rolled s"
  "iteration (upto_trigger cfg ob s) = iteration s + 1"
  "sim_time (upto_trigger cfg ob s) = time_after ob"
  "solver_ok (upto_trigger cfg ob s) = ok_after ob"
  "solver_state (upto_trigger cfg ob s) = state_after ob"
  by (simp_all add: upto_trigger_def check_trigger_def sample_Re_def solver_step_def)

lemma body_Continue_cases:
  assumes "body cfg ob s = Continue s'"
  shows "step_exn ob = None \<and>
    ((\<not> bootstrap_now (upto_trigger cfg ob s) \<and> s' = upto_trigger cfg ob s) \<or>
     (bootstrap_now (upto_trigger cfg ob s) \<and>
      bootstrap_steps s \<noteq> max_bootstrap_steps cfg \<and>
      apply_step cfg (upto_trigger cfg ob s) = Continue s'))"
  using assms
  by (auto simp add: body_def bootstrap_block_def upto_trigger_keeps split: option.splits if_splits)

text \<open>
  Claim C5. In a pass of the loop in which a bootstrap step fires (the pass goes on and
  the step counter has moved), the wait time and the maximum time step are each
  multiplied by \<open>Ra_old / Ra_new\<close>, and the CFL object holds the new maximum time step.
\<close>

theorem C5_wait_time_and_max_dt:
  assumes "body cfg ob s = Continue s'"
    and "bootstrap_steps s' \<noteq> bootstrap_steps s"
  shows "bootstrap_wait_time s' = bootstrap_wait_time s * (cRa s / cRa s') \<and>
         max_dt s' = max_dt s * (cRa s / cRa s') \<and>
         CFL_max_dt s' = max_dt s'"
proof -
  let ?m = "upto_trigger cfg ob s"
  from body_Continue_cases[OF assms(1)] assms(2)
  have fired: "apply_step cfg ?m = Continue s'"
    by (auto simp add: upto_trigger_keeps)
  from apply_step_Continue_nz[OF fired] have nz: "cRa ?m \<noteq> 0" "cQ ?m \<noteq> 0"
    by simp_all
  from fired apply_step_ok[OF nz, of cfg] show ?thesis
    by (auto simp add: upto_trigger_keeps)
qed

theorem C5_witness:
  "continues (body ex_cfg ex_ob ex_state) \<and>
   bootstrap_wait_time (result_state (body ex_cfg ex_ob ex_state)) = 2 * (100 / 10000) \<and>
   max_dt (result_state (body ex_cfg ex_ob ex_state)) = (1/20) * (100 / 10000) \<and>
   CFL_max_dt (result_state (body ex_cfg ex_ob ex_state)) = (1/20) * (100 / 10000)"
proof -
  have b: "body ex_cfg ex_ob ex_state = Continue (result_state (body ex_cfg ex_ob ex_state))"
    by (simp add: loop_defs ex_defs)
  have n: "bootstrap_steps (result_state (body ex_cfg ex_ob ex_state)) \<noteq> bootstrap_steps ex_state"
    by (simp add: loop_defs ex_defs)
  have c: "cRa (result_state (body ex_cfg ex_ob ex_state)) = 10000" "cRa ex_state = 100"
     "bootstrap_wait_time ex_state = 2" "max_dt ex_state = 1/20"
    by (simp_all add: loop_defs ex_defs)
  from C5_wait_time_and_max_dt[OF b n] b c show ?thesis
    by (metis continues.simps(1))
qed

text \<open>The four ways a pass of the loop body can go.\<close>

lemma body_fires:
  assumes "step_exn ob = None" and "bootstrap_now (upto_trigger cfg ob s)"
    and "bootstrap_steps s \<noteq> max_bootstrap_steps cfg"
  shows "body cfg ob s = apply_step cfg (upto_trigger cfg ob s)"
  using assms by (simp add: body_def bootstrap_block_def upto_trigger_keeps)

lemma body_quiet:
  assumes "step_exn ob = None" and "\<not> bootstrap_now (upto_trigger cfg ob s)"
  shows "body cfg ob s = Continue (upto_trigger cfg ob s)"
  using assms by (simp add: body_def bootstrap_block_def)

lemma body_done:
  assumes "step_exn ob = None" and "bootstrap_now (upto_trigger cfg ob s)"
    and "bootstrap_steps s = max_bootstrap_steps cfg"
  shows "body cfg ob s = Broke (upto_trigger cfg ob s)"
  using assms by (simp add: body_def bootstrap_block_def upto_trigger_keeps)

lemma body_raises:
  assumes "step_exn ob = Some e"
  shows "body cfg ob s = Threw e (s\<lparr>dt := cfl_dt ob\<rparr>)"
  using assms by (simp add: body_def)



section \<open>Properties of the loop\<close>


lemma run_snd_cases:
  "snd (run cfg (ob # obs) s) =
     (if solver_ok s \<and> isfinite (Re_avg s)
      then (if continues (body cfg ob s) then snd (run cfg obs (result_state (body cfg ob s)))
            else result_state (body cfg ob s))
      else s)"
  by (cases "body cfg ob s") simp_all



section \<open>The path through (Ra, Q) and the velocity fields\<close>

lemma body_fired_state:
  assumes "body cfg ob s = Continue s'" and "bootstrap_steps s' \<noteq> bootstrap_steps s"
  shows "apply_step cfg (upto_trigger cfg ob s) = Continue s' \<and> cRa s \<noteq> 0 \<and> cQ s \<noteq> 0"
proof -
  from body_Continue_cases[OF assms(1)] assms(2)
  have fired: "apply_step cfg (upto_trigger cfg ob s) = Continue s'"
    by (auto simp add: upto_trigger_keeps)
  with apply_step_Continue_nz[OF fired] show ?thesis
    by (simp add: upto_trigger_keeps)
qed




text \<open>The fields \<open>u\<close> and \<open>w\<close> are multiplied by \<open>sqrt (Ra_new / Ra_old)\<close> in every fired
  step, in 2.5D and in 3D.\<close>

lemma u_w_rescaled:
  assumes "body cfg ob s = Continue s'" and "bootstrap_steps s' \<noteq> bootstrap_steps s"
    and "n = ''u'' \<or> n = ''w''"
  shows "solver_state s' n = map_option (scale_grid (sqrt (cRa s' / cRa s))) (state_after ob n)"
proof -
  let ?m = "upto_trigger cfg ob s"
  from body_fired_state[OF assms(1,2)]
  have fired: "apply_step cfg ?m = Continue s'" and nz: "cRa ?m \<noteq> 0" "cQ ?m \<noteq> 0"
    by (simp_all add: upto_trigger_keeps)
  from fired apply_step_ok[OF nz, of cfg] assms(3) show ?thesis
    by (auto simp add: upto_trigger_keeps scale_field_def split: option.splits)
qed

text \<open>
  Claim C1 says that in 3D the three velocity fields \<open>u\<close>, \<open>v\<close> and \<open>w\<close> are all
  multiplied by \<open>sqrt (Ra_new / Ra_old)\<close> when a step fires. In this 3D pass a step fires
  with the factor 10: \<open>u\<close> and \<open>w\<close> are multiplied by 10, and \<open>v\<close>, a velocity of the run by
  \<open>velocity_names\<close>, keeps the values the solver left.
\<close>

theorem C1_v_not_rescaled_in_3D:
  "continues (body ex3d_cfg ex3d_ob ex_state) \<and>
   bootstrap_steps (result_state (body ex3d_cfg ex3d_ob ex_state)) = bootstrap_steps ex_state + 1 \<and>
   velocity_names ex3d_cfg = [''u'', ''v'', ''w''] \<and>
   sqrt (cRa (result_state (body ex3d_cfg ex3d_ob ex_state)) / cRa ex_state) = 10 \<and>
   state_after ex3d_ob ''u'' = Some [1, 2] \<and>
   state_after ex3d_ob ''v'' = Some [4] \<and>
   state_after ex3d_ob ''w'' = Some [3] \<and>
   solver_state (result_state (body ex3d_cfg ex3d_ob ex_state)) ''u'' = Some [10, 20] \<and>
   solver_state (result_state (body ex3d_cfg ex3d_ob ex_state)) ''v'' = Some [4] \<and>
   solver_state (result_state (body ex3d_cfg ex3d_ob ex_state)) ''w'' = Some [30]"
  by (simp add: loop_defs ex_defs)

section \<open>The step budget\<close>

lemma body_steps_le:
  assumes "bootstrap_steps s \<le> max_bootstrap_steps cfg"
  shows "bootstrap_steps (result_state (body cfg ob s)) \<le> max_bootstrap_steps cfg"
proof (cases "step_exn ob")
  case (Some e)
  with assms show ?thesis by (simp add: body_raises)
next
  case None
  let ?m = "upto_trigger cfg ob s"
  show ?thesis
  proof (cases "bootstrap_now ?m")
    case False
    with None assms show ?thesis by (simp add: body_quiet upto_trigger_keeps)
  next
    case True
    show ?thesis
    proof (cases "bootstrap_steps s = max_bootstrap_steps cfg")
      case True
      with None \<open>bootstrap_now ?m\<close> show ?thesis by (simp add: body_done upto_trigger_keeps)
    next
      case False
      have "body cfg ob s = apply_step cfg ?m"
        using None True False by (rule body_fires)
      moreover have "bootstrap_steps (result_state (apply_step cfg ?m)) = bootstrap_steps s + 1"
        by (simp add: apply_step_def Let_def upto_trigger_keeps)
      ultimately show ?thesis using assms False by simp
    qed
  qed
qed

lemma body_broke_iff:
  "broke (body cfg ob s) =
     (step_exn ob = None \<and> bootstrap_now (upto_trigger cfg ob s) \<and>
      bootstrap_steps s = max_bootstrap_steps cfg)"
proof (cases "step_exn ob")
  case (Some e)
  then show ?thesis by (simp add: body_raises)
next
  case None
  show ?thesis
  proof (cases "bootstrap_now (upto_trigger cfg ob s)")
    case False
    with None show ?thesis by (simp add: body_quiet)
  next
    case True
    show ?thesis
    proof (cases "bootstrap_steps s = max_bootstrap_steps cfg")
      case True
      with None \<open>bootstrap_now (upto_trigger cfg ob s)\<close> show ?thesis by (simp add: body_done)
    next
      case False
      have "body cfg ob s = apply_step cfg (upto_trigger cfg ob s)"
        using None True False by (rule body_fires)
      moreover have "\<not> broke (apply_step cfg (upto_trigger cfg ob s))"
        by (simp add: apply_step_def Let_def)
      ultimately show ?thesis using False by simp
    qed
  qed
qed

lemma body_at_max_keeps:
  assumes "bootstrap_steps s = max_bootstrap_steps cfg"
  shows "bootstrap_steps (result_state (body cfg ob s)) = bootstrap_steps s \<and>
         cRa (result_state (body cfg ob s)) = cRa s \<and>
         cQ (result_state (body cfg ob s)) = cQ s \<and>
         Ra_fd (result_state (body cfg ob s)) = Ra_fd s \<and>
         Q_fd (result_state (body cfg ob s)) = Q_fd s"
proof (cases "step_exn ob")
  case (Some e)
  then show ?thesis by (simp add: body_raises)
next
  case None
  show ?thesis
  proof (cases "bootstrap_now (upto_trigger cfg ob s)")
    case False
    with None show ?thesis by (simp add: body_quiet upto_trigger_keeps)
  next
    case True
    with None assms show ?thesis by (simp add: body_done upto_trigger_keeps)
  qed
qed

lemma run_fst_Break:
  "fst (run cfg obs s) = Break \<Longrightarrow> bootstrap_steps (snd (run cfg obs s)) = max_bootstrap_steps cfg"
proof (induction obs arbitrary: s)
  case Nil
  then show ?case by (simp split: if_splits)
next
  case (Cons ob obs)
  show ?case
  proof (cases "body cfg ob s")
    case (Continue s1)
    with Cons show ?thesis by (auto split: if_splits)
  next
    case (Broke s1)
    then have "broke (body cfg ob s)" by simp
    then have mx: "bootstrap_steps s = max_bootstrap_steps cfg" by (simp add: body_broke_iff)
    from body_at_max_keeps[OF mx, of ob] mx Broke Cons.prems show ?thesis
      by (auto split: if_splits)
  next
    case (Threw e s1)
    with Cons.prems show ?thesis by (auto split: if_splits)
  qed
qed

text \<open>
  Claim C6, amended. When the configured maximum is not negative (the counter starts at
  zero, hence at or below the maximum), the step counter never exceeds the maximum,
  however the loop runs; the loop leaves through \<^verbatim>\<open>break\<close> with the counter at the
  maximum; a pass breaks exactly when the step returns, a bootstrap step is due and the
  counter equals the maximum; and a pass entered with the counter at the maximum
  changes neither the counter nor Ra, Q and their fields.
\<close>

theorem C6_counter_bounded:
  assumes "bootstrap_steps s \<le> max_bootstrap_steps cfg"
  shows "bootstrap_steps (snd (run cfg obs s)) \<le> max_bootstrap_steps cfg \<and>
         (fst (run cfg obs s) = Break \<longrightarrow>
            bootstrap_steps (snd (run cfg obs s)) = max_bootstrap_steps cfg) \<and>
         broke (body cfg ob s) =
           (step_exn ob = None \<and> bootstrap_now (upto_trigger cfg ob s) \<and>
            bootstrap_steps s = max_bootstrap_steps cfg) \<and>
         (bootstrap_steps s = max_bootstrap_steps cfg \<longrightarrow>
            bootstrap_steps (result_state (body cfg ob s)) = bootstrap_steps s \<and>
            cRa (result_state (body cfg ob s)) = cRa s \<and>
            cQ (result_state (body cfg ob s)) = cQ s \<and>
            Ra_fd (result_state (body cfg ob s)) = Ra_fd s \<and>
            Q_fd (result_state (body cfg ob s)) = Q_fd s)"
proof -
  have "bootstrap_steps (snd (run cfg obs s)) \<le> max_bootstrap_steps cfg"
    using assms
  proof (induction obs arbitrary: s)
    case Nil
    then show ?case by simp
  next
    case (Cons ob obs)
    from body_steps_le[OF Cons.prems, of ob] Cons.IH Cons.prems show ?case
      by (simp add: run_snd_cases del: run.simps)
  qed
  with run_fst_Break[of cfg obs s] body_broke_iff[of cfg ob s] body_at_max_keeps[of s cfg ob]
  show ?thesis by blast
qed

text \<open>
  Claim C6 as stated fails for a negative maximum, which \<^verbatim>\<open>int(args['--Nboots'])\<close>
  accepts: with the maximum at \<open>-1\<close> the test \<^verbatim>\<open>bootstrap_steps == max_bootstrap_steps\<close> is
  never true, a due step is applied and the counter goes above the maximum.
\<close>

theorem C6_counterexample:
  "continues (body exneg_cfg ex_ob ex_state) \<and>
   bootstrap_steps ex_state = 0 \<and>
   max_bootstrap_steps exneg_cfg = - 1 \<and>
   max_bootstrap_steps exneg_cfg < bootstrap_steps (result_state (body exneg_cfg ex_ob ex_state)) \<and>
   cRa ex_state = 100 \<and>
   cRa (result_state (body exneg_cfg ex_ob ex_state)) = 10000"
  by (simp add: loop_defs ex_defs)

theorem C6_witness:
  "fst (run ex1_cfg [ex_ob, ex_ob2] ex_state) = Break \<and>
   bootstrap_steps (snd (run ex1_cfg [ex_ob, ex_ob2] ex_state)) = 1 \<and>
   max_bootstrap_steps ex1_cfg = 1 \<and>
   \<not> broke (body ex1_cfg ex_ob ex_state)"
proof -
  have h: "bootstrap_steps ex_state \<le> max_bootstrap_steps ex1_cfg"
    by (simp add: ex1_cfg_def ex_defs init_state_def)
  have b: "fst (run ex1_cfg [ex_ob, ex_ob2] ex_state) = Break"
    by (simp add: loop_defs ex_defs ex1_cfg_def)
  have m: "max_bootstrap_steps ex1_cfg = 1" "bootstrap_steps ex_state = 0"
    by (simp_all add: ex1_cfg_def ex_defs init_state_def)
  from C6_counter_bounded[OF h, of "[ex_ob, ex_ob2]" ex_ob] b m show ?thesis
    by simp
qed

section \<open>When a bootstrap step fires\<close>


lemma run_not_running:
  "\<not> (solver_ok s \<and> isfinite (Re_avg s)) \<Longrightarrow> run cfg obs s = (CondFalse, s)"
  by (cases obs) auto

lemma run_append:
  "run cfg (xs @ ys) s =
     (if fst (run cfg xs s) = Running then run cfg ys (snd (run cfg xs s)) else run cfg xs s)"
proof (induction xs arbitrary: s)
  case Nil
  then show ?case by (simp add: run_not_running)
next
  case (Cons ob xs)
  show ?case
  proof (cases "body cfg ob s")
    case (Continue s1)
    with Cons.IH[of s1] show ?thesis by simp
  next
    case (Broke s1)
    then show ?thesis by simp
  next
    case (Threw e s1)
    then show ?thesis by simp
  qed
qed








section \<open>A Reynolds number that is not finite\<close>

lemmas fin_defs = bootstrap_main_def forces_main_def after_loop_def finally_block_def
  final_try_def final_finally_def handle_def main_except_def final_except_def

lemma ex_blowup_run:
  "fst (run ex_cfg ex_blowup ex_init) = CondFalse"
  "iteration (snd (run ex_cfg ex_blowup ex_init)) = 10"
  "Re_avg (snd (run ex_cfg ex_blowup ex_init)) = NaN"
  by (simp_all add: ex_blowup_def ex_pass_def ex_init_def loop_defs ex_defs)

text \<open>
  Claim C7 says that no time step is taken after the check of the loop condition that
  finds \<open>Re_avg\<close> not finite. In this run the tenth pass reads NaN and the check after it
  ends the loop with \<^verbatim>\<open>solver.iteration\<close> at 10; the script ends with it at 11, since the
  \<^verbatim>\<open>finally\<close> block calls \<^verbatim>\<open>solver.step(dt)\<close> once more (line 597).
\<close>

theorem C7_counterexample:
  "fst (run ex_cfg ex_blowup ex_init) = CondFalse \<and>
   Re_avg (snd (run ex_cfg ex_blowup ex_init)) = NaN \<and>
   iteration (snd (run ex_cfg ex_blowup ex_init)) = 10 \<and>
   fst (snd (bootstrap_main ex_cfg ex_env ex_blowup ex_init)) = 11"
  by (simp add: ex_blowup_run fin_defs ex_env_def)

lemma run_Running:
  "fst (run cfg obs s) = Running \<Longrightarrow>
     solver_ok (snd (run cfg obs s)) \<and> isfinite (Re_avg (snd (run cfg obs s)))"
proof (induction obs arbitrary: s)
  case Nil
  then show ?case by (simp split: if_splits)
next
  case (Cons ob obs)
  then show ?case by (cases "body cfg ob s") (auto split: if_splits)
qed

lemma forces_run_not_running:
  "\<not> (f_ok s \<and> isfinite (f_Re_avg s)) \<Longrightarrow> forces_run start obs s = (CondFalse, s)"
  by (cases obs) auto

lemma forces_run_append:
  "forces_run start (xs @ ys) s =
     (if fst (forces_run start xs s) = Running then forces_run start ys (snd (forces_run start xs s))
      else forces_run start xs s)"
proof (induction xs arbitrary: s)
  case Nil
  then show ?case by (simp add: forces_run_not_running)
next
  case (Cons ob xs)
  show ?case
  proof (cases "forces_body start ob s")
    case (Inl e)
    then show ?thesis by simp
  next
    case (Inr s1)
    with Cons.IH[of s1] show ?thesis by simp
  qed
qed

lemma forces_run_Running:
  "fst (forces_run start obs s) = Running \<Longrightarrow>
     f_ok (snd (forces_run start obs s)) \<and> isfinite (f_Re_avg (snd (forces_run start obs s)))"
proof (induction obs arbitrary: s)
  case Nil
  then show ?case by (simp split: if_splits)
next
  case (Cons ob obs)
  then show ?case by (cases "forces_body start ob s") (auto split: if_splits)
qed

lemma after_loop_iteration:
  "fst (snd (after_loop env ex it)) =
     it + (if checkpoint_exn env = None \<and> final_step_exn env = None then 1 else 0)"
  by (simp add: after_loop_def finally_block_def final_try_def Let_def split: option.splits)

text \<open>
  Claim C7, amended. In both scripts, once the passes \<open>obs\<close> leave \<open>Re_avg\<close> not finite
  the loop has ended: whatever the framework would hand back next (\<open>rest\<close>) is never
  asked for, and the check of the loop condition in that state fails whatever the state
  of the bootstrap controller. The loop takes no further step; after it the \<^verbatim>\<open>finally\<close>
  block takes exactly one more \<^verbatim>\<open>solver.step(dt)\<close>, provided building the final checkpoint
  and that step do not raise.
\<close>

theorem C7_nonfinite_Re_ends_loop:
  assumes "\<not> isfinite (Re_avg (snd (run cfg obs s)))"
    and "\<not> isfinite (f_Re_avg (snd (forces_run start fobs fs)))"
  shows "fst (run cfg obs s) \<noteq> Running \<and>
         run cfg (obs @ rest) s = run cfg obs s \<and>
         run cfg rest (snd (run cfg obs s)) = (CondFalse, snd (run cfg obs s)) \<and>
         fst (snd (bootstrap_main cfg env (obs @ rest) s)) =
           iteration (snd (run cfg obs s))
             + (if checkpoint_exn env = None \<and> final_step_exn env = None then 1 else 0) \<and>
         fst (forces_run start fobs fs) \<noteq> Running \<and>
         forces_run start (fobs @ rest) fs = forces_run start fobs fs \<and>
         forces_run start rest (snd (forces_run start fobs fs))
           = (CondFalse, snd (forces_run start fobs fs)) \<and>
         fst (snd (forces_main start env (fobs @ rest) fs)) =
           f_iteration (snd (forces_run start fobs fs))
             + (if checkpoint_exn env = None \<and> final_step_exn env = None then 1 else 0)"
proof -
  have a: "fst (run cfg obs s) \<noteq> Running"
    using assms(1) run_Running[of cfg obs s] by blast
  then have b: "run cfg (obs @ rest) s = run cfg obs s"
    by (simp add: run_append)
  have c: "run cfg rest (snd (run cfg obs s)) = (CondFalse, snd (run cfg obs s))"
    using assms(1) by (simp add: run_not_running)
  have d: "fst (forces_run start fobs fs) \<noteq> Running"
    using assms(2) forces_run_Running[of start fobs fs] by blast
  then have e: "forces_run start (fobs @ rest) fs = forces_run start fobs fs"
    by (simp add: forces_run_append)
  have f: "forces_run start rest (snd (forces_run start fobs fs))
           = (CondFalse, snd (forces_run start fobs fs))"
    using assms(2) by (simp add: forces_run_not_running)
  show ?thesis
    using a b c d e f
    by (simp add: bootstrap_main_def forces_main_def after_loop_iteration del: run.simps forces_run.simps)
qed

theorem C7_witness:
  "fst (run ex_cfg ex_blowup ex_init) = CondFalse \<and>
   run ex_cfg (ex_blowup @ [ex_pass (11/20) (Finite 3)]) ex_init = run ex_cfg ex_blowup ex_init \<and>
   fst (snd (bootstrap_main ex_cfg ex_env (ex_blowup @ [ex_pass (11/20) (Finite 3)]) ex_init)) = 10 + 1 \<and>
   fst (forces_run 0 ex_blowup ex_finit) = CondFalse \<and>
   forces_run 0 (ex_blowup @ [ex_pass (11/20) (Finite 3)]) ex_finit = forces_run 0 ex_blowup ex_finit \<and>
   fst (snd (forces_main 0 ex_env (ex_blowup @ [ex_pass (11/20) (Finite 3)]) ex_finit)) = 10 + 1"
proof -
  have r: "fst (run ex_cfg ex_blowup ex_init) = CondFalse"
    "iteration (snd (run ex_cfg ex_blowup ex_init)) = 10"
    "Re_avg (snd (run ex_cfg ex_blowup ex_init)) = NaN"
    by (simp_all add: ex_blowup_def ex_pass_def ex_init_def loop_defs ex_defs)
  have f: "fst (forces_run 0 ex_blowup ex_finit) = CondFalse"
    "f_iteration (snd (forces_run 0 ex_blowup ex_finit)) = 10"
    "f_Re_avg (snd (forces_run 0 ex_blowup ex_finit)) = NaN"
    by (simp_all add: ex_blowup_def ex_pass_def ex_finit_def forces_body_def Let_def)
  have h: "\<not> isfinite (Re_avg (snd (run ex_cfg ex_blowup ex_init)))"
    "\<not> isfinite (f_Re_avg (snd (forces_run 0 ex_blowup ex_finit)))"
    by (simp_all add: r f)
  have e: "checkpoint_exn ex_env = None" "final_step_exn ex_env = None"
    by (simp_all add: ex_env_def)
  from C7_nonfinite_Re_ends_loop[OF h, of "[ex_pass (11/20) (Finite 3)]" ex_env] r f e
  show ?thesis by simp
qed

section \<open>Exceptions\<close>

text \<open>
  Claim C9 says that an exception leaving the loop is logged and then raised again, and
  that a failure of the final checkpoint prints a message before it is raised again.
  Both handlers start with a bare \<^verbatim>\<open>raise\<close>, so the statement after it is never reached.
  In the first run below \<^verbatim>\<open>solver.step\<close> raises in the first pass, in the second building
  the final checkpoint raises: the exception leaves the script each time, and the events
  written hold the \<^verbatim>\<open>logger.info\<close> lines of the \<^verbatim>\<open>finally\<close> blocks only, neither the
  \<^verbatim>\<open>logger.error\<close> line nor the printed message.
\<close>

theorem C9_handlers_raise_first:
  "exec_handler main_except = ([], True) \<and>
   exec_handler final_except = ([], True) \<and>
   fst (run ex_cfg [ex_raise] ex_init) = Raised (External ''step failed'') \<and>
   bootstrap_main ex_cfg ex_env [ex_raise] ex_init =
     (map Info [''Iterations'', ''Sim end time'', ''Run time sec'', ''Run time cpu-hr'', ''iter/sec'',
        ''beginning join operation'', ''========'', ''Iterations'', ''Sim end time'', ''Run time sec'',
        ''Run time cpu-hr'', ''iter/sec''],
      1, Some (External ''step failed'')) \<and>
   bootstrap_main ex_cfg ex_ck_env ex_blowup ex_init =
     (map Info [''Iterations'', ''Sim end time'', ''Run time sec'', ''Run time cpu-hr'', ''iter/sec'',
        ''beginning join operation'', ''========'', ''Iterations'', ''Sim end time'', ''Run time sec'',
        ''Run time cpu-hr'', ''iter/sec''],
      10, Some (External ''checkpoint failed''))"
proof -
  have r: "run ex_cfg [ex_raise] ex_init = (Raised (External ''step failed''), ex_init\<lparr>dt := 1/20\<rparr>)"
    by (simp add: ex_raise_def ex_pass_def ex_init_def init_state_def body_def)
  have i: "iteration (ex_init\<lparr>dt := 1/20\<rparr>) = 0"
    by (simp add: ex_init_def init_state_def)
  have h: "exec_handler main_except = ([], True)" "exec_handler final_except = ([], True)"
    by (simp_all add: main_except_def final_except_def)
  have a: "bootstrap_main ex_cfg ex_env [ex_raise] ex_init =
     (map Info [''Iterations'', ''Sim end time'', ''Run time sec'', ''Run time cpu-hr'', ''iter/sec'',
        ''beginning join operation'', ''========'', ''Iterations'', ''Sim end time'', ''Run time sec'',
        ''Run time cpu-hr'', ''iter/sec''],
      1, Some (External ''step failed''))"
    by (simp add: bootstrap_main_def r i h after_loop_def finally_block_def final_try_def
        final_finally_def handle_def ex_env_def Let_def del: run.simps)
  have b: "bootstrap_main ex_cfg ex_ck_env ex_blowup ex_init =
     (map Info [''Iterations'', ''Sim end time'', ''Run time sec'', ''Run time cpu-hr'', ''iter/sec'',
        ''beginning join operation'', ''========'', ''Iterations'', ''Sim end time'', ''Run time sec'',
        ''Run time cpu-hr'', ''iter/sec''],
      10, Some (External ''checkpoint failed''))"
    by (simp add: bootstrap_main_def ex_blowup_run h after_loop_def finally_block_def final_try_def
        final_finally_def handle_def ex_env_def ex_ck_env_def Let_def del: run.simps)
  from h r a b show ?thesis by (simp del: run.simps)
qed

text \<open>However a run ends, neither handler writes anything.\<close>

lemma never_logged:
  "Error m \<notin> set (fst (after_loop env ex it)) \<and> Printed m \<notin> set (fst (after_loop env ex it))"
  by (auto simp add: after_loop_def finally_block_def final_finally_def handle_def main_except_def
      final_except_def Let_def split: option.splits)

section \<open>The option \<^verbatim>\<open>--factor\<close>\<close>








end
